theory Spec2Isabelle
  imports Main "HOL-Library.Sublist"
begin

section \<open>Python strings\<close>

text \<open>
  A Python \<^verbatim>\<open>str\<close> is modelled as a \<^typ>\<open>string\<close> whose characters are the
  code points U+0000 to U+00FF, one \<^typ>\<open>char\<close> each. On that range
  \<^verbatim>\<open>str.isspace\<close> holds for U+0009..U+000D, U+001C..U+0020, U+0085 and U+00A0, and
  \<^verbatim>\<open>str.lower\<close> moves A..Z and the Latin-1 capitals U+00C0..U+00DE (without the
  multiplication sign U+00D7) up by 32 and leaves every other character alone.
\<close>

definition isspace :: "char \<Rightarrow> bool" where
  "isspace c =
     (let n = (of_char c :: nat)
      in (9 \<le> n \<and> n \<le> 13) \<or> (28 \<le> n \<and> n \<le> 32) \<or> n = 133 \<or> n = 160)"

definition lower_char :: "char \<Rightarrow> char" where
  "lower_char c =
     (let n = (of_char c :: nat)
      in if (65 \<le> n \<and> n \<le> 90) \<or> (192 \<le> n \<and> n \<le> 222 \<and> n \<noteq> 215)
         then char_of (n + 32) else c)"

definition py_lower :: "string \<Rightarrow> string" where
  "py_lower s = map lower_char s"

text \<open>\<^verbatim>\<open>s.strip()\<close>: whitespace is removed from both ends, never from the middle.\<close>

definition py_strip :: "string \<Rightarrow> string" where
  "py_strip s = rev (dropWhile isspace (rev (dropWhile isspace s)))"

section \<open>The local tools of \<^verbatim>\<open>time_weather_agent_devui.py\<close>\<close>

text \<open>
  The file \<^verbatim>\<open>time_weather_agent_devui.py\<close> does not parse as it stands: in
  \<^verbatim>\<open>create_time_weather_agent\<close> the bracket that opens the tools list (line 135) is
  closed by the parenthesis of line 144. The two tool functions, the instructions and the
  loop of \<^verbatim>\<open>main_console\<close> are complete in themselves and are modelled from their own
  text.
\<close>

subsection \<open>\<^verbatim>\<open>get_timezone_for_city\<close>\<close>

text \<open>The dictionary literal \<^verbatim>\<open>city_timezones\<close>, in the order of the source.\<close>

definition city_timezones :: "(string \<times> string) list" where
  "city_timezones =
     [(''london'', ''Europe/London''),
      (''berlin'', ''Europe/Berlin''),
      (''new york'', ''America/New_York''),
      (''tokyo'', ''Asia/Tokyo''),
      (''sydney'', ''Australia/Sydney''),
      (''seattle'', ''America/Los_Angeles''),
      (''paris'', ''Europe/Paris'')]"

text \<open>The two f-strings the function returns.\<close>

definition timezone_msg :: "string \<Rightarrow> string \<Rightarrow> string" where
  "timezone_msg city tz = ''The timezone for '' @ city @ '' is '' @ tz @ ''.''"

definition unknown_city_msg :: "string \<Rightarrow> string" where
  "unknown_city_msg city =
     ''Unknown city '' @ [CHR 0x27] @ city @ [CHR 0x27] @ ''. Try a major city name.''"

text \<open>
  \<^verbatim>\<open>
  city_lower = city.lower().strip()
  if city_lower in city_timezones:
      return f"The timezone for {city} is {city_timezones[city_lower]}."
  else:
      return f"Unknown city '{city}'. Try a major city name."
  \<close>
  The membership test and the subscript are one lookup in the model.
\<close>

definition get_timezone_for_city :: "string \<Rightarrow> string" where
  "get_timezone_for_city city =
     (let city_lower = py_strip (py_lower city)
      in case map_of city_timezones city_lower of
           Some tz \<Rightarrow> timezone_msg city tz
         | None \<Rightarrow> unknown_city_msg city)"

subsection \<open>\<^verbatim>\<open>get_current_time_for_timezone\<close>\<close>

text \<open>
  The function calls \<^verbatim>\<open>pytz.timezone\<close>, \<^verbatim>\<open>datetime.now\<close> and
  \<^verbatim>\<open>strftime\<close>, which belong to libraries and to the clock. They are parameters of
  the model; each may raise, and then yields \<open>Inl\<close> of the text of the exception
  (\<^verbatim>\<open>str(e)\<close>).
\<close>

record ('tz, 'dt) time_library =
  pytz_timezone :: "string \<Rightarrow> string + 'tz"
  datetime_now :: "'tz \<Rightarrow> string + 'dt"
  strftime :: "'dt \<Rightarrow> string \<Rightarrow> string + string"

definition current_time_msg :: "string \<Rightarrow> string \<Rightarrow> string \<Rightarrow> string" where
  "current_time_msg timezone_name clock_text date_text =
     ''The current time in '' @ timezone_name @ '' is '' @ clock_text @ '' on '' @ date_text @ ''.''"

definition time_failure_msg :: "string \<Rightarrow> string \<Rightarrow> string" where
  "time_failure_msg timezone_name e =
     ''Could not determine time for timezone '' @ [CHR 0x27] @ timezone_name @ [CHR 0x27] @
     '': '' @ e"

text \<open>
  \<^verbatim>\<open>
  try:
      timezone = pytz.timezone(timezone_name)
      now = datetime.now(timezone)
      return f"The current time in {timezone_name} is {now.strftime('%I:%M:%S %p')} on {now.strftime('%A, %B %d, %Y')}."
  except Exception as e:
      return f"Could not determine time for timezone '{timezone_name}': {str(e)}"
  \<close>
  Every call of the \<^verbatim>\<open>try\<close> block is a branch: the first one that raises sends
  control to the handler.
\<close>

definition get_current_time_for_timezone ::
    "('tz, 'dt) time_library \<Rightarrow> string \<Rightarrow> string" where
  "get_current_time_for_timezone lib timezone_name =
     (case pytz_timezone lib timezone_name of
        Inl e \<Rightarrow> time_failure_msg timezone_name e
      | Inr timezone \<Rightarrow>
          (case datetime_now lib timezone of
             Inl e \<Rightarrow> time_failure_msg timezone_name e
           | Inr now \<Rightarrow>
               (case strftime lib now ''%I:%M:%S %p'' of
                  Inl e \<Rightarrow> time_failure_msg timezone_name e
                | Inr clock_text \<Rightarrow>
                    (case strftime lib now ''%A, %B %d, %Y'' of
                       Inl e \<Rightarrow> time_failure_msg timezone_name e
                     | Inr date_text \<Rightarrow>
                         current_time_msg timezone_name clock_text date_text))))"

subsection \<open>The agent instructions of \<^verbatim>\<open>time_weather_agent_devui.py\<close>\<close>

definition AGENT_INSTRUCTIONS_devui :: string where
  \<open>AGENT_INSTRUCTIONS_devui =
     ''You are a helpful Time & Weather assistant.\<newline>'' @
     ''\<newline>'' @
     ''## Capabilities:\<newline>'' @
     ''1. **Remember Context**: Remember the user's location from our conversation.\<newline>'' @
     ''2. **Location Tracking**: When a user says "I am in [city]", remember this as their current location.\<newline>'' @
     ''3. **Time Information**: Tell users the current time in their location.\<newline>'' @
     ''4. **Weather Information**: Provide weather for supported locations (Seattle, New York, London, Berlin, Tokyo, Sydney).\<newline>'' @
     ''\<newline>'' @
     ''## Guidelines:\<newline>'' @
     ''- When the user says "here" or "my location", use the location they mentioned earlier.\<newline>'' @
     ''- If the user says they "moved", update their current location.\<newline>'' @
     ''- If asked to recall their location, tell them where they said they are.\<newline>'' @
     ''- Be concise and friendly.\<newline>''\<close>

text \<open>\<^verbatim>\<open>", ".join(names)\<close>, used to read the list of supported locations off the instructions.\<close>

fun join_comma :: "string list \<Rightarrow> string" where
  "join_comma [] = []"
| "join_comma [x] = x"
| "join_comma (x # y # ys) = x @ '', '' @ join_comma (y # ys)"

section \<open>Client configuration\<close>

text \<open>
  Exceptions that the modelled code raises itself or lets through. \<open>KeyboardInterrupt\<close>
  and \<open>CancelledError\<close> (of \<^verbatim>\<open>asyncio\<close>) are not an \<^verbatim>\<open>Exception\<close> in Python:
  \<^verbatim>\<open>except Exception\<close> does not catch them.
\<close>

datatype py_error =
    ValueError string
  | KeyError string
  | NameError string
  | KeyboardInterrupt
  | CancelledError

text \<open>What the program does to the world, in order.\<close>

datatype tool =
    MCPStreamableHTTPTool string string "string option"
  | HostedMCPTool string string
  | FunctionTool string

datatype effect =
    Print string
  | Input string
  | ConstructAgent string string "tool list"
  | GetNewThread nat
  | AgentRun nat string
  | Sleep nat

type_synonym environ = "string \<rightharpoonup> string"

record credentials =
  token :: string
  endpoint :: string

text \<open>
  Lines 40 to 49 of \<^verbatim>\<open>time_weather_agent.py\<close> (and, word for word, lines 41 to 50 of
  \<^verbatim>\<open>time_weather_agent_devui.py\<close>). \<^verbatim>\<open>os.environ[...]\<close> of a missing key
  raises KeyError.
\<close>

definition client_configuration :: "environ \<Rightarrow> effect list \<times> (py_error + credentials)" where
  "client_configuration env =
     (case env ''GITHUB_TOKEN'' of
        Some t \<Rightarrow>
          ([Print ''Using GitHub Token for authentication''],
           Inr \<lparr>token = t, endpoint = ''https://models.github.ai/inference''\<rparr>)
      | None \<Rightarrow>
          (case env ''AZURE_OPENAI_API_KEY'' of
             Some k \<Rightarrow>
               (case env ''AZURE_OPENAI_ENDPOINT'' of
                  Some e \<Rightarrow>
                    ([Print ''Using Azure OpenAI Token for authentication''],
                     Inr \<lparr>token = k, endpoint = e\<rparr>)
                | None \<Rightarrow> ([], Inl (KeyError ''AZURE_OPENAI_ENDPOINT'')))
           | None \<Rightarrow>
               ([], Inl (ValueError
                  ''No API key found. Set GITHUB_TOKEN or AZURE_OPENAI_API_KEY.''))))"

text \<open>\<^verbatim>\<open>os.environ.get(name, default)\<close> for the two server addresses.\<close>

definition USER_MCP_URL :: "environ \<Rightarrow> string" where
  "USER_MCP_URL env =
     (case env ''USER_MCP_URL'' of Some u \<Rightarrow> u | None \<Rightarrow> ''http://localhost:8002/mcp'')"

definition WEATHER_MCP_URL :: "environ \<Rightarrow> string" where
  "WEATHER_MCP_URL env =
     (case env ''WEATHER_MCP_URL'' of Some u \<Rightarrow> u | None \<Rightarrow> ''http://localhost:8003/mcp'')"

definition AGENT_INSTRUCTIONS :: string where
  "AGENT_INSTRUCTIONS =
     ''You are a helpful Time & Weather assistant that helps users know the current time and weather for their location.\<newline>'' @
     ''\<newline>'' @
     ''Use the MCP tools for fullfilling your tasks.''"

section \<open>The session drivers of \<^verbatim>\<open>time_weather_agent.py\<close>\<close>

subsection \<open>The agent framework and the terminal\<close>

text \<open>
  \<^verbatim>\<open>ChatAgent\<close> comes from the package \<^verbatim>\<open>agent_framework\<close>; its two methods the
  drivers call are parameters of the model. \<open>'s\<close> is everything they may read and
  change (the contents of the threads, the model backend, the tool servers). A thread
  object is known by a handle. \<^verbatim>\<open>agent.run\<close> either returns a result whose
  \<^verbatim>\<open>text\<close> is the reply, or raises an \<^verbatim>\<open>Exception\<close> with a message, or is cut by
  KeyboardInterrupt, or is cancelled as a task; in each case it may have changed \<open>'s\<close>.
\<close>

datatype run_outcome =
    Reply string
  | RaisesException string
  | RaisesKeyboardInterrupt
  | RaisesCancelledError

record 's framework =
  get_new_thread :: "'s \<Rightarrow> nat \<times> 's"
  agent_run :: "nat \<Rightarrow> string \<Rightarrow> 's \<Rightarrow> run_outcome \<times> 's"

text \<open>
  One call of \<^verbatim>\<open>input(prompt)\<close>: it returns a line, or is cut by KeyboardInterrupt, or
  raises an \<^verbatim>\<open>Exception\<close> (EOFError at the end of the input). A session is run on
  the list of the outcomes of its successive calls of \<^verbatim>\<open>input\<close>.
\<close>

datatype input_event =
    Line string
  | InputInterrupt
  | InputRaises string

text \<open>
  How a run on a finite list of input events ends: the function returned, an exception
  left it, or the list is used up and the loop is blocked in its next \<^verbatim>\<open>input\<close>.
\<close>

datatype run_status =
    Returned
  | Raised py_error
  | AwaitingInput

type_synonym 's run = "effect list \<times> run_status \<times> 's"

definition emit :: "effect list \<Rightarrow> 's run \<Rightarrow> 's run" where
  "emit es r = (case r of (trace, status, s) \<Rightarrow> (es @ trace, status, s))"

subsection \<open>Global names\<close>

text \<open>
  The names bound at module level of \<^verbatim>\<open>time_weather_agent.py\<close> once the module has
  been executed: its imports, its assignments and its three functions. A name read inside
  a function that is neither local nor in this list nor a builtin raises NameError; no
  builtin of Python is called \<^verbatim>\<open>get_current_time_for_timezone\<close> or
  \<^verbatim>\<open>get_timezone_for_city\<close>.
\<close>

definition module_globals :: "string list" where
  "module_globals =
     [''os'', ''asyncio'', ''Annotated'', ''datetime'', ''pytz'', ''Field'', ''AsyncOpenAI'',
      ''load_dotenv'', ''ChatAgent'', ''HostedMCPTool'', ''MCPStreamableHTTPTool'',
      ''OpenAIChatClient'', ''token'', ''endpoint'', ''async_openai_client'',
      ''completion_model_name'', ''medium_model_name'', ''small_model_name'',
      ''completion_client'', ''medium_client'', ''small_client'', ''USER_MCP_URL'',
      ''WEATHER_MCP_URL'', ''AGENT_INSTRUCTIONS'', ''run_interactive_conversation'',
      ''run_demo_conversation'', ''main'']"

definition builtins_read :: "string list" where
  "builtins_read = [''print'', ''input'', ''len'', ''ValueError'', ''KeyboardInterrupt'', ''Exception'']"

text \<open>Reading global names in the order of evaluation: the first unbound one raises.\<close>

fun load_globals :: "string list \<Rightarrow> py_error + unit" where
  "load_globals [] = Inr ()"
| "load_globals (n # ns) =
     (if n \<in> set module_globals \<or> n \<in> set builtins_read then load_globals ns
      else Inl (NameError (''name '' @ [CHR 0x27] @ n @ [CHR 0x27] @ '' is not defined'')))"

subsection \<open>The input loop\<close>

text \<open>
  The loops of \<^verbatim>\<open>run_interactive_conversation\<close> and of \<^verbatim>\<open>main_console\<close>
  (\<^verbatim>\<open>time_weather_agent_devui.py\<close>) are the same statements around different texts.
  The texts are the fields of \<open>console_text\<close>; the loop is written once.
\<close>

record console_text =
  prompt :: string
  goodbye :: string
  interrupted :: string
  agent_line :: "string \<Rightarrow> string"
  error_lines :: "string \<Rightarrow> string list"

definition interactive_text :: console_text where
  "interactive_text =
     \<lparr>prompt = ''\<newline>You 2: '',
      goodbye = ''\<newline>Goodbye! Have a great day!'',
      interrupted = ''\<newline>\<newline>Conversation interrupted. Goodbye!'',
      agent_line = (\<lambda>text. ''\<newline>Agent: '' @ text),
      error_lines = (\<lambda>e. [''\<newline>Error: '' @ e, ''Please try again or type 'quit' to exit.''])\<rparr>"

definition console_mode_text :: console_text where
  "console_mode_text =
     \<lparr>prompt = ''You: '',
      goodbye = ''\<newline>Goodbye!'',
      interrupted = ''\<newline>\<newline>Goodbye!'',
      agent_line = (\<lambda>text. ''Agent: '' @ text @ ''\<newline>''),
      error_lines = (\<lambda>e. [''Error: '' @ e @ ''\<newline>''])\<rparr>"

text \<open>
  \<^verbatim>\<open>
  while True:
      try:
          user_input = input(prompt).strip()
          if not user_input:
              continue
          if user_input.lower() in ["quit", "exit", "q"]:
              print(goodbye)
              break
          result = await agent.run(user_input, thread=thread)
          print(agent_line(result.text))
      except KeyboardInterrupt:
          print(interrupted)
          break
      except Exception as e:
          for line in error_lines(e): print(line)
  \<close>
  Each round of the loop makes one call of \<^verbatim>\<open>input\<close>, so the recursion is on the
  list of input events. The variable \<^verbatim>\<open>thread\<close> is never assigned in the loop. An
  exception that neither clause catches leaves the loop and the function.
\<close>

fun console_loop ::
    "console_text \<Rightarrow> 's framework \<Rightarrow> nat \<Rightarrow> input_event list \<Rightarrow> 's \<Rightarrow> 's run" where
  "console_loop ui fw thread [] s = ([], AwaitingInput, s)"
| "console_loop ui fw thread (InputInterrupt # rest) s =
     ([Input (prompt ui), Print (interrupted ui)], Returned, s)"
| "console_loop ui fw thread (InputRaises e # rest) s =
     emit (Input (prompt ui) # map Print (error_lines ui e))
       (console_loop ui fw thread rest s)"
| "console_loop ui fw thread (Line raw # rest) s =
     (let user_input = py_strip raw
      in if user_input = [] then
           emit [Input (prompt ui)] (console_loop ui fw thread rest s)
         else if py_lower user_input \<in> set [''quit'', ''exit'', ''q''] then
           ([Input (prompt ui), Print (goodbye ui)], Returned, s)
         else
           (case agent_run fw thread user_input s of
              (Reply text, s') \<Rightarrow>
                emit [Input (prompt ui), AgentRun thread user_input, Print (agent_line ui text)]
                  (console_loop ui fw thread rest s')
            | (RaisesException e, s') \<Rightarrow>
                emit (Input (prompt ui) # AgentRun thread user_input #
                      map Print (error_lines ui e))
                  (console_loop ui fw thread rest s')
            | (RaisesKeyboardInterrupt, s') \<Rightarrow>
                ([Input (prompt ui), AgentRun thread user_input, Print (interrupted ui)],
                 Returned, s')
            | (RaisesCancelledError, s') \<Rightarrow>
                ([Input (prompt ui), AgentRun thread user_input], Raised CancelledError, s')))"

subsection \<open>\<^verbatim>\<open>run_interactive_conversation\<close>\<close>

definition ruler :: string where
  "ruler = replicate 60 (CHR ''='')"

definition quoted :: "string \<Rightarrow> string" where
  "quoted s = [CHR 0x27] @ s @ [CHR 0x27]"

definition interactive_banner :: "effect list" where
  "interactive_banner =
     [Print (''\<newline>'' @ ruler),
      Print ''Time & Weather Agent - Scenario 1'',
      Print ruler,
      Print ''\<newline>This agent remembers your location and can tell you the time'',
      Print ''and weather. Try these example queries:'',
      Print (''  - '' @ quoted ''I am currently in London''),
      Print (''  - '' @ quoted ''What is the weather now here?''),
      Print (''  - '' @ quoted ''What time is it for me right now?''),
      Print (''  - '' @ quoted ''I moved to Berlin, what is the weather like today?''),
      Print (''  - '' @ quoted ''Can you remind me where I said I am based?''),
      Print ''\<newline>Type 'quit' or 'exit' to end the conversation.'',
      Print (ruler @ ''\<newline>'')]"

text \<open>
  The agent is built from the global names the call reads, in the order Python evaluates
  them, then the thread is created once, before the loop.
\<close>

definition run_interactive_conversation ::
    "'s framework \<Rightarrow> environ \<Rightarrow> input_event list \<Rightarrow> 's \<Rightarrow> 's run" where
  "run_interactive_conversation fw env inputs s =
     emit interactive_banner
       (case load_globals
               [''ChatAgent'', ''medium_client'', ''AGENT_INSTRUCTIONS'',
                ''MCPStreamableHTTPTool'', ''USER_MCP_URL'',
                ''MCPStreamableHTTPTool'', ''WEATHER_MCP_URL''] of
          Inl e \<Rightarrow> ([], Raised e, s)
        | Inr _ \<Rightarrow>
            (case get_new_thread fw s of
               (thread, s1) \<Rightarrow>
                 emit [ConstructAgent ''TimeWeatherAgent'' AGENT_INSTRUCTIONS
                         [MCPStreamableHTTPTool ''UserService'' (USER_MCP_URL env)
                            (Some ''never_require''),
                          MCPStreamableHTTPTool ''WeatherService'' (WEATHER_MCP_URL env)
                            (Some ''never_require'')],
                       GetNewThread thread]
                   (console_loop interactive_text fw thread inputs s1)))"

subsection \<open>\<^verbatim>\<open>run_demo_conversation\<close>\<close>

definition demo_queries :: "string list" where
  "demo_queries =
     [''I am currently in London'',
      ''What is the weather now here?'',
      ''What time is it for me right now?'',
      ''I moved to Berlin, what is the weather like today?'',
      ''Can you remind me where I said I am based?'']"

text \<open>
  The separator line repeats a character outside the modelled range (the source file
  holds it in a damaged encoding); it stands here as three bytes. Nothing depends on it.
\<close>

definition separator :: string where
  "separator = ''\<newline>'' @ concat (replicate 50 [CHR 0xE2, CHR 0x94, CHR 0x80])"

definition demo_banner :: "effect list" where
  "demo_banner =
     [Print (''\<newline>'' @ ruler),
      Print ''Time & Weather Agent - Demo Mode'',
      Print ruler,
      Print ''Running through the scenario's example queries...\<newline>'']"

text \<open>
  \<^verbatim>\<open>
  for query in demo_queries:
      print(separator); print(f"User: {query}")
      try:
          result = await agent.run(query, thread=thread)
          print(f"\nAgent: {result.text}")
      except Exception as e:
          print(f"\nError: {e}")
      await asyncio.sleep(1)
  \<close>
  KeyboardInterrupt and CancelledError are not caught here and leave the function.
\<close>

fun demo_loop :: "'s framework \<Rightarrow> nat \<Rightarrow> string list \<Rightarrow> 's \<Rightarrow> 's run" where
  "demo_loop fw thread [] s = ([], Returned, s)"
| "demo_loop fw thread (query # rest) s =
     (case agent_run fw thread query s of
        (Reply text, s') \<Rightarrow>
          emit [Print separator, Print (''User: '' @ query), AgentRun thread query,
                Print (''\<newline>Agent: '' @ text), Sleep 1]
            (demo_loop fw thread rest s')
      | (RaisesException e, s') \<Rightarrow>
          emit [Print separator, Print (''User: '' @ query), AgentRun thread query,
                Print (''\<newline>Error: '' @ e), Sleep 1]
            (demo_loop fw thread rest s')
      | (RaisesKeyboardInterrupt, s') \<Rightarrow>
          ([Print separator, Print (''User: '' @ query), AgentRun thread query],
           Raised KeyboardInterrupt, s')
      | (RaisesCancelledError, s') \<Rightarrow>
          ([Print separator, Print (''User: '' @ query), AgentRun thread query],
           Raised CancelledError, s'))"

text \<open>
  The tools list of this driver names \<^verbatim>\<open>get_current_time_for_timezone\<close> and
  \<^verbatim>\<open>get_timezone_for_city\<close> after the two \<^verbatim>\<open>HostedMCPTool\<close> calls. The call
  of \<^verbatim>\<open>ChatAgent\<close> is not inside any \<^verbatim>\<open>try\<close>.
\<close>

definition run_demo_conversation :: "'s framework \<Rightarrow> environ \<Rightarrow> 's \<Rightarrow> 's run" where
  "run_demo_conversation fw env s =
     emit demo_banner
       (case load_globals
               [''ChatAgent'', ''medium_client'', ''AGENT_INSTRUCTIONS'',
                ''HostedMCPTool'', ''USER_MCP_URL'',
                ''HostedMCPTool'', ''WEATHER_MCP_URL'',
                ''get_current_time_for_timezone'', ''get_timezone_for_city''] of
          Inl e \<Rightarrow> ([], Raised e, s)
        | Inr _ \<Rightarrow>
            (case get_new_thread fw s of
               (thread, s1) \<Rightarrow>
                 emit [ConstructAgent ''TimeWeatherAgent'' AGENT_INSTRUCTIONS
                         [HostedMCPTool ''UserService'' (USER_MCP_URL env),
                          HostedMCPTool ''WeatherService'' (WEATHER_MCP_URL env),
                          FunctionTool ''get_current_time_for_timezone'',
                          FunctionTool ''get_timezone_for_city''],
                       GetNewThread thread]
                   (case demo_loop fw thread demo_queries s1 of
                      (trace, Returned, s2) \<Rightarrow>
                        (trace @ [Print (''\<newline>'' @ ruler), Print ''Demo complete!'',
                                  Print ruler],
                         Returned, s2)
                    | (trace, status, s2) \<Rightarrow> (trace, status, s2))))"

subsection \<open>\<^verbatim>\<open>main\<close> and the module\<close>

definition main ::
    "'s framework \<Rightarrow> environ \<Rightarrow> string list \<Rightarrow> input_event list \<Rightarrow> 's \<Rightarrow> 's run" where
  "main fw env argv inputs s =
     (if length argv > 1 \<and> argv ! 1 = ''--demo'' then run_demo_conversation fw env s
      else run_interactive_conversation fw env inputs s)"

text \<open>
  Running the file: the module body (the client configuration first), then
  \<^verbatim>\<open>asyncio.run(main())\<close>. An exception of the module body ends the program there.
\<close>

definition time_weather_agent ::
    "'s framework \<Rightarrow> environ \<Rightarrow> string list \<Rightarrow> input_event list \<Rightarrow> 's \<Rightarrow> 's run" where
  "time_weather_agent fw env argv inputs s =
     (case client_configuration env of
        (out, Inl e) \<Rightarrow> (out, Raised e, s)
      | (out, Inr cred) \<Rightarrow> emit out (main fw env argv inputs s))"

section \<open>The turn loop of the Conversation Orchestrator\<close>

text \<open>
  Modelled from the spec: the request, tool-call, response loop of one user turn runs
  inside \<^verbatim>\<open>agent.run\<close> of the package \<^verbatim>\<open>agent_framework\<close>, which is not among
  the source files. The definitions of this section follow section 4.4 of the
  specification (states AwaitingUserInput, Deciding, Dispatching, RepliedToUser and the
  four transition rules) and the data model of its section 3.
\<close>

datatype tool_outcome =
    Success string
  | Failure string string

datatype message =
    UserUtterance string
  | AssistantReply string
  | ToolCallRequest string string nat
  | ToolCallResult nat tool_outcome

datatype oracle_decision =
    FinalReply string
  | ToolCalls "(string \<times> string \<times> nat) list"

datatype turn_error =
    ToolLoopExceededError
  | OracleUnavailableError
  | ConnectionError

text \<open>
  Modelled from the spec: the Completion Oracle Adapter (\<open>complete\<close>, which fails with
  OracleUnavailableError), the dispatch of one call through the Tool Registry
  (\<open>invoke\<close>; an unknown tool or a failed execution is a \<open>Failure\<close> outcome, a
  ConnectionError is fatal for the turn) and the configured maximum of round trips.
\<close>

record orchestrator =
  complete :: "message list \<Rightarrow> turn_error + oracle_decision"
  invoke :: "string \<Rightarrow> string \<Rightarrow> turn_error + tool_outcome"
  max_round_trips :: nat

text \<open>
  Modelled from the spec: rule 3, Dispatching. Every pending call is executed in order
  and its result appended under its \<open>call_id\<close>.
\<close>

fun dispatching ::
    "orchestrator \<Rightarrow> (string \<times> string \<times> nat) list \<Rightarrow> message list \<Rightarrow>
     turn_error + message list" where
  "dispatching orc [] thread = Inr thread"
| "dispatching orc ((tool_name, arguments, call_id) # calls) thread =
     (case invoke orc tool_name arguments of
        Inl e \<Rightarrow> Inl e
      | Inr outcome \<Rightarrow> dispatching orc calls (thread @ [ToolCallResult call_id outcome]))"

text \<open>
  Modelled from the spec: rules 2 and 4, Deciding with the loop bound. The second
  argument is the number of round trips still allowed in this turn. The result is the
  reply or the error, the thread, and the number of round trips (Deciding, Dispatching
  and back) that were made.
\<close>

fun deciding ::
    "orchestrator \<Rightarrow> nat \<Rightarrow> message list \<Rightarrow> (turn_error + string) \<times> message list \<times> nat" where
  "deciding orc 0 thread =
     (case complete orc thread of
        Inl e \<Rightarrow> (Inl e, thread, 0)
      | Inr (FinalReply text) \<Rightarrow> (Inr text, thread @ [AssistantReply text], 0)
      | Inr (ToolCalls calls) \<Rightarrow> (Inl ToolLoopExceededError, thread, 0))"
| "deciding orc (Suc remaining) thread =
     (case complete orc thread of
        Inl e \<Rightarrow> (Inl e, thread, 0)
      | Inr (FinalReply text) \<Rightarrow> (Inr text, thread @ [AssistantReply text], 0)
      | Inr (ToolCalls calls) \<Rightarrow>
          (case dispatching orc calls
                  (thread @ map (\<lambda>(tool_name, arguments, call_id).
                                   ToolCallRequest tool_name arguments call_id) calls) of
             Inl e \<Rightarrow> (Inl e, thread, 0)
           | Inr thread' \<Rightarrow>
               (case deciding orc remaining thread' of
                  (result, thread'', n) \<Rightarrow> (result, thread'', Suc n))))"

text \<open>Modelled from the spec: rule 1, a new utterance is appended and the turn decided.\<close>

definition handle_turn ::
    "orchestrator \<Rightarrow> message list \<Rightarrow> string \<Rightarrow> (turn_error + string) \<times> message list \<times> nat" where
  "handle_turn orc thread utterance =
     deciding orc (max_round_trips orc) (thread @ [UserUtterance utterance])"

section \<open>Kinds of effects\<close>




section \<open>Concrete instances\<close>

text \<open>
  A framework whose agent fails on the utterance \<open>boom\<close> and echoes every other one, a
  time library that knows one timezone, and an orchestrator whose oracle always asks for
  a tool call. Then a framework whose agent is cut by KeyboardInterrupt on every
  utterance, and an orchestrator with the same oracle whose capability provider cannot be
  reached. The model is evaluated on them.
\<close>

definition stub_framework :: "nat framework" where
  "stub_framework =
     \<lparr>get_new_thread = (\<lambda>s. (7, Suc s)),
      agent_run = (\<lambda>thread text s.
         (if text = ''boom'' then RaisesException ''backend down''
          else Reply (''ok: '' @ text), Suc s))\<rparr>"

definition stub_time_library :: "(nat, nat) time_library" where
  "stub_time_library =
     \<lparr>pytz_timezone = (\<lambda>n. if n = ''Europe/London'' then Inr 0 else Inl (quoted n)),
      datetime_now = (\<lambda>tz. Inr 0),
      strftime = (\<lambda>now fmt. Inr (if fmt = ''%I:%M:%S %p'' then ''09:30:00 AM''
                                 else ''Monday, January 01, 2024''))\<rparr>"

definition stub_orchestrator :: orchestrator where
  "stub_orchestrator =
     \<lparr>complete = (\<lambda>thread. Inr (ToolCalls [(''get_weather_at_location'', ''Berlin'', length thread)])),
      invoke = (\<lambda>tool_name arguments. Inr (Success ''sunny'')),
      max_round_trips = 8\<rparr>"

definition interrupted_framework :: "nat framework" where
  "interrupted_framework =
     \<lparr>get_new_thread = (\<lambda>s. (7, Suc s)),
      agent_run = (\<lambda>thread text s. (RaisesKeyboardInterrupt, Suc s))\<rparr>"

definition unreachable_orchestrator :: orchestrator where
  "unreachable_orchestrator =
     \<lparr>complete = (\<lambda>thread. Inr (ToolCalls [(''get_weather_at_location'', ''Berlin'', length thread)])),
      invoke = (\<lambda>tool_name arguments. Inl ConnectionError),
      max_round_trips = 8\<rparr>"

section \<open>Facts about the string operations\<close>

lemma isspace_lower_char: "isspace (lower_char c) = isspace c"
  by (auto simp: isspace_def lower_char_def Let_def)

lemma py_strip_pad:
  assumes "\<forall>c\<in>set ws1. isspace c" "\<forall>c\<in>set ws2. isspace c"
  shows "py_strip (ws1 @ s @ ws2) = py_strip s"
proof -
  have front: "dropWhile isspace (ws1 @ s @ ws2) = dropWhile isspace (s @ ws2)"
    using assms(1) by (simp add: dropWhile_append2)
  show ?thesis
  proof (cases "\<forall>c\<in>set s. isspace c")
    case True
    then have "dropWhile isspace (s @ ws2) = []" "dropWhile isspace s = []"
      using assms(2) by auto
    then show ?thesis by (simp only: py_strip_def front)
  next
    case False
    then have "dropWhile isspace (s @ ws2) = dropWhile isspace s @ ws2"
      by (auto simp: dropWhile_append1)
    moreover have "dropWhile isspace (rev ws2 @ rev (dropWhile isspace s)) =
        dropWhile isspace (rev (dropWhile isspace s))"
      by (rule dropWhile_append2) (use assms(2) in simp)
    ultimately show ?thesis by (simp add: py_strip_def front)
  qed
qed

lemma normalise_pad:
  assumes "\<forall>c\<in>set ws1. isspace c" "\<forall>c\<in>set ws2. isspace c"
  shows "py_strip (py_lower (ws1 @ s @ ws2)) = py_strip (py_lower s)"
proof -
  have "\<forall>c\<in>set (py_lower ws1). isspace c" "\<forall>c\<in>set (py_lower ws2). isspace c"
    using assms by (auto simp: py_lower_def isspace_lower_char)
  then have "py_strip (py_lower ws1 @ py_lower s @ py_lower ws2) = py_strip (py_lower s)"
    by (rule py_strip_pad)
  then show ?thesis by (simp add: py_lower_def)
qed

section \<open>Facts about \<^verbatim>\<open>get_timezone_for_city\<close>\<close>

lemma map_of_city_timezones:
  "map_of city_timezones n =
     (if n = ''london'' then Some ''Europe/London''
      else if n = ''berlin'' then Some ''Europe/Berlin''
      else if n = ''new york'' then Some ''America/New_York''
      else if n = ''tokyo'' then Some ''Asia/Tokyo''
      else if n = ''sydney'' then Some ''Australia/Sydney''
      else if n = ''seattle'' then Some ''America/Los_Angeles''
      else if n = ''paris'' then Some ''Europe/Paris''
      else None)"
  by (simp add: city_timezones_def)

lemma msgs_distinct: "timezone_msg c tz \<noteq> unknown_city_msg c'"
  by (simp add: timezone_msg_def unknown_city_msg_def)

lemma timezone_msg_inj: "timezone_msg c tz = timezone_msg c tz' \<longleftrightarrow> tz = tz'"
  by (simp add: timezone_msg_def)

lemma get_timezone_for_city_cases:
  "get_timezone_for_city city =
     (let n = py_strip (py_lower city)
      in if n = ''london'' then timezone_msg city ''Europe/London''
         else if n = ''berlin'' then timezone_msg city ''Europe/Berlin''
         else if n = ''new york'' then timezone_msg city ''America/New_York''
         else if n = ''tokyo'' then timezone_msg city ''Asia/Tokyo''
         else if n = ''sydney'' then timezone_msg city ''Australia/Sydney''
         else if n = ''seattle'' then timezone_msg city ''America/Los_Angeles''
         else if n = ''paris'' then timezone_msg city ''Europe/Paris''
         else unknown_city_msg city)"
  by (simp add: get_timezone_for_city_def map_of_city_timezones Let_def)

lemma get_timezone_for_city_known_iff:
  "(\<exists>tz. get_timezone_for_city city = timezone_msg city tz) \<longleftrightarrow>
     py_strip (py_lower city) \<in>
       {''london'', ''berlin'', ''new york'', ''tokyo'', ''sydney'', ''seattle'', ''paris''}"
  by (auto simp: get_timezone_for_city_cases Let_def msgs_distinct[symmetric])

lemma get_timezone_for_city_unknown_iff:
  "get_timezone_for_city city = unknown_city_msg city \<longleftrightarrow>
     py_strip (py_lower city) \<notin>
       {''london'', ''berlin'', ''new york'', ''tokyo'', ''sydney'', ''seattle'', ''paris''}"
  by (auto simp: get_timezone_for_city_cases Let_def msgs_distinct)

lemma get_timezone_for_city_same_key:
  assumes "py_strip (py_lower city') = py_strip (py_lower city)"
  shows "(get_timezone_for_city city' = timezone_msg city' tz \<longleftrightarrow>
          get_timezone_for_city city = timezone_msg city tz) \<and>
         (get_timezone_for_city city' = unknown_city_msg city' \<longleftrightarrow>
          get_timezone_for_city city = unknown_city_msg city)"
  using assms
  by (auto simp: get_timezone_for_city_def Let_def timezone_msg_inj msgs_distinct
                 msgs_distinct[symmetric] split: option.splits)

text \<open>
  Claim C7. \<^verbatim>\<open>get_timezone_for_city\<close> is a total function of its argument whose
  outcome is decided by \<^verbatim>\<open>city.lower().strip()\<close> alone: it returns the message
  "The timezone for (city) is (timezone)." naming the mapped timezone exactly when the
  normalised name is one of the seven keys london, berlin, new york, tokyo, sydney,
  seattle, paris, and the message "Unknown city '(city)'. Try a major city name." exactly
  otherwise; it never returns the empty string. Two inputs with the same normalised name
  have the same outcome; padding an input with whitespace on either side, or changing the
  case of its letters, does not change the normalised name.
\<close>

theorem get_timezone_for_city_normalised:
  "get_timezone_for_city city =
     (let n = py_strip (py_lower city)
      in if n = ''london'' then ''The timezone for '' @ city @ '' is Europe/London.''
         else if n = ''berlin'' then ''The timezone for '' @ city @ '' is Europe/Berlin.''
         else if n = ''new york'' then ''The timezone for '' @ city @ '' is America/New_York.''
         else if n = ''tokyo'' then ''The timezone for '' @ city @ '' is Asia/Tokyo.''
         else if n = ''sydney'' then ''The timezone for '' @ city @ '' is Australia/Sydney.''
         else if n = ''seattle'' then ''The timezone for '' @ city @ '' is America/Los_Angeles.''
         else if n = ''paris'' then ''The timezone for '' @ city @ '' is Europe/Paris.''
         else ''Unknown city '' @ [CHR 0x27] @ city @ [CHR 0x27] @ ''. Try a major city name.'') \<and>
   ((\<exists>tz. get_timezone_for_city city = ''The timezone for '' @ city @ '' is '' @ tz @ ''.'') \<longleftrightarrow>
      py_strip (py_lower city) \<in>
        {''london'', ''berlin'', ''new york'', ''tokyo'', ''sydney'', ''seattle'', ''paris''}) \<and>
   (get_timezone_for_city city =
      ''Unknown city '' @ [CHR 0x27] @ city @ [CHR 0x27] @ ''. Try a major city name.'' \<longleftrightarrow>
      py_strip (py_lower city) \<notin>
        {''london'', ''berlin'', ''new york'', ''tokyo'', ''sydney'', ''seattle'', ''paris''}) \<and>
   get_timezone_for_city city \<noteq> [] \<and>
   (\<forall>city' tz. py_strip (py_lower city') = py_strip (py_lower city) \<longrightarrow>
      (get_timezone_for_city city' = ''The timezone for '' @ city' @ '' is '' @ tz @ ''.'' \<longleftrightarrow>
       get_timezone_for_city city = ''The timezone for '' @ city @ '' is '' @ tz @ ''.'') \<and>
      (get_timezone_for_city city' =
         ''Unknown city '' @ [CHR 0x27] @ city' @ [CHR 0x27] @ ''. Try a major city name.'' \<longleftrightarrow>
       get_timezone_for_city city =
         ''Unknown city '' @ [CHR 0x27] @ city @ [CHR 0x27] @ ''. Try a major city name.'')) \<and>
   (\<forall>ws1 ws2 city'.
      (\<forall>c\<in>set ws1. isspace c) \<and> (\<forall>c\<in>set ws2. isspace c) \<and> py_lower city' = py_lower city \<longrightarrow>
      py_strip (py_lower (ws1 @ city' @ ws2)) = py_strip (py_lower city))"
proof (intro conjI allI impI)
  show "get_timezone_for_city city =
     (let n = py_strip (py_lower city)
      in if n = ''london'' then ''The timezone for '' @ city @ '' is Europe/London.''
         else if n = ''berlin'' then ''The timezone for '' @ city @ '' is Europe/Berlin.''
         else if n = ''new york'' then ''The timezone for '' @ city @ '' is America/New_York.''
         else if n = ''tokyo'' then ''The timezone for '' @ city @ '' is Asia/Tokyo.''
         else if n = ''sydney'' then ''The timezone for '' @ city @ '' is Australia/Sydney.''
         else if n = ''seattle'' then ''The timezone for '' @ city @ '' is America/Los_Angeles.''
         else if n = ''paris'' then ''The timezone for '' @ city @ '' is Europe/Paris.''
         else ''Unknown city '' @ [CHR 0x27] @ city @ [CHR 0x27] @ ''. Try a major city name.'')"
    using get_timezone_for_city_cases[of city]
    by (simp add: Let_def timezone_msg_def unknown_city_msg_def)
next
  show "(\<exists>tz. get_timezone_for_city city = ''The timezone for '' @ city @ '' is '' @ tz @ ''.'') \<longleftrightarrow>
      py_strip (py_lower city) \<in>
        {''london'', ''berlin'', ''new york'', ''tokyo'', ''sydney'', ''seattle'', ''paris''}"
    using get_timezone_for_city_known_iff[of city] by (simp add: timezone_msg_def)
next
  show "get_timezone_for_city city =
      ''Unknown city '' @ [CHR 0x27] @ city @ [CHR 0x27] @ ''. Try a major city name.'' \<longleftrightarrow>
      py_strip (py_lower city) \<notin>
        {''london'', ''berlin'', ''new york'', ''tokyo'', ''sydney'', ''seattle'', ''paris''}"
    using get_timezone_for_city_unknown_iff[of city] by (simp add: unknown_city_msg_def)
next
  show "get_timezone_for_city city \<noteq> []"
    by (simp add: get_timezone_for_city_def Let_def timezone_msg_def unknown_city_msg_def
             split: option.splits)
next
  fix city' tz
  assume "py_strip (py_lower city') = py_strip (py_lower city)"
  from get_timezone_for_city_same_key[OF this, of tz]
  show "get_timezone_for_city city' = ''The timezone for '' @ city' @ '' is '' @ tz @ ''.'' \<longleftrightarrow>
        get_timezone_for_city city = ''The timezone for '' @ city @ '' is '' @ tz @ ''.''"
    and "get_timezone_for_city city' =
           ''Unknown city '' @ [CHR 0x27] @ city' @ [CHR 0x27] @ ''. Try a major city name.'' \<longleftrightarrow>
         get_timezone_for_city city =
           ''Unknown city '' @ [CHR 0x27] @ city @ [CHR 0x27] @ ''. Try a major city name.''"
    by (simp_all add: timezone_msg_def unknown_city_msg_def)
next
  fix ws1 ws2 city'
  assume h: "(\<forall>c\<in>set ws1. isspace c) \<and> (\<forall>c\<in>set ws2. isspace c) \<and> py_lower city' = py_lower city"
  then have "py_strip (py_lower (ws1 @ city' @ ws2)) = py_strip (py_lower city')"
    by (simp add: normalise_pad)
  with h show "py_strip (py_lower (ws1 @ city' @ ws2)) = py_strip (py_lower city)"
    by simp
qed

theorem get_timezone_for_city_normalised_witness:
  "get_timezone_for_city (''  '' @ ''NEW York'' @ [CHR 0x0A]) =
     ''The timezone for '' @ (''  '' @ ''NEW York'' @ [CHR 0x0A]) @ '' is America/New_York.'' \<and>
   get_timezone_for_city ''Rome'' = ''Unknown city 'Rome'. Try a major city name.''"
proof -
  note t = get_timezone_for_city_normalised [of "''new york''"]
  have sp: "(\<forall>c\<in>set ''  ''. isspace c) \<and> (\<forall>c\<in>set [CHR 0x0A]. isspace c)"
    by (simp add: isspace_def)
  have lo: "py_lower ''NEW York'' = py_lower ''new york''"
    by code_simp
  have base: "get_timezone_for_city ''new york'' =
                ''The timezone for '' @ ''new york'' @ '' is '' @ ''America/New_York'' @ ''.''"
    by code_simp
  from t sp lo
  have key: "py_strip (py_lower (''  '' @ ''NEW York'' @ [CHR 0x0A])) = py_strip (py_lower ''new york'')"
    by blast
  with t base
  have one: "get_timezone_for_city (''  '' @ ''NEW York'' @ [CHR 0x0A]) =
     ''The timezone for '' @ (''  '' @ ''NEW York'' @ [CHR 0x0A]) @ '' is '' @ ''America/New_York'' @ ''.''"
    by blast
  have "py_strip (py_lower ''Rome'') \<notin>
        {''london'', ''berlin'', ''new york'', ''tokyo'', ''sydney'', ''seattle'', ''paris''}"
    by code_simp
  with get_timezone_for_city_normalised [of "''Rome''"]
  have two: "get_timezone_for_city ''Rome'' =
      ''Unknown city '' @ [CHR 0x27] @ ''Rome'' @ [CHR 0x27] @ ''. Try a major city name.''"
    by blast
  from one two show ?thesis by simp
qed

section \<open>Facts about the drivers, the time tool and the turn loop\<close>

lemma emit_simps [simp]: "emit es (trace, status, s) = (es @ trace, status, s)"
  by (simp add: emit_def)

lemma fst_emit: "fst (emit es r) = es @ fst r"
  by (cases r) simp

lemma snd_emit: "snd (emit es r) = snd r"
  by (cases r) simp



lemma load_globals_demo:
  "load_globals [''ChatAgent'', ''medium_client'', ''AGENT_INSTRUCTIONS'',
                ''HostedMCPTool'', ''USER_MCP_URL'',
                ''HostedMCPTool'', ''WEATHER_MCP_URL'',
                ''get_current_time_for_timezone'', ''get_timezone_for_city''] =
   Inl (NameError ''name 'get_current_time_for_timezone' is not defined'')"
  by (simp add: module_globals_def builtins_read_def)

lemma run_demo_conversation_name_error:
  "run_demo_conversation fw env s =
     (demo_banner, Raised (NameError ''name 'get_current_time_for_timezone' is not defined''), s)"
  unfolding run_demo_conversation_def load_globals_demo by (simp add: emit_def)

lemma dispatching_appends:
  assumes "\<forall>tool_name arguments. \<exists>outcome. invoke orc tool_name arguments = Inr outcome"
  shows "\<exists>results. dispatching orc calls thread = Inr (thread @ results) \<and>
           list_all2 (\<lambda>call m. \<exists>outcome.
                        invoke orc (fst call) (fst (snd call)) = Inr outcome \<and>
                        m = ToolCallResult (snd (snd call)) outcome) calls results"
proof (induction calls arbitrary: thread)
  case Nil
  then show ?case by simp
next
  case (Cons c calls)
  obtain tool_name arguments call_id where c: "c = (tool_name, arguments, call_id)"
    by (cases c) auto
  from assms obtain outcome where i: "invoke orc tool_name arguments = Inr outcome" by blast
  from Cons[of "thread @ [ToolCallResult call_id outcome]"] obtain results where
    r: "dispatching orc calls (thread @ [ToolCallResult call_id outcome]) =
          Inr ((thread @ [ToolCallResult call_id outcome]) @ results)"
       "list_all2 (\<lambda>call m. \<exists>outcome.
                        invoke orc (fst call) (fst (snd call)) = Inr outcome \<and>
                        m = ToolCallResult (snd (snd call)) outcome) calls results"
    by blast
  show ?case
  proof (intro exI conjI)
    show "dispatching orc (c # calls) thread =
            Inr (thread @ (ToolCallResult call_id outcome # results))"
      using c i r(1) by simp
    show "list_all2 (\<lambda>call m. \<exists>outcome.
                        invoke orc (fst call) (fst (snd call)) = Inr outcome \<and>
                        m = ToolCallResult (snd (snd call)) outcome)
            (c # calls) (ToolCallResult call_id outcome # results)"
      using c i r(2) by simp
  qed
qed

lemma deciding_transcript:
  assumes "\<forall>thread. \<exists>calls. complete orc thread = Inr (ToolCalls calls)"
      and "\<forall>tool_name arguments. \<exists>outcome. invoke orc tool_name arguments = Inr outcome"
  shows "\<exists>ts. length ts = Suc n \<and> ts ! 0 = thread \<and>
           (\<forall>i<n. \<exists>calls results.
              complete orc (ts ! i) = Inr (ToolCalls calls) \<and>
              list_all2 (\<lambda>call m. \<exists>outcome.
                           invoke orc (fst call) (fst (snd call)) = Inr outcome \<and>
                           m = ToolCallResult (snd (snd call)) outcome) calls results \<and>
              ts ! Suc i =
                ts ! i @
                map (\<lambda>(tool_name, arguments, call_id).
                       ToolCallRequest tool_name arguments call_id) calls @
                results) \<and>
           deciding orc n thread = (Inl ToolLoopExceededError, ts ! n, n)"
proof (induction n arbitrary: thread)
  case 0
  from assms(1) obtain calls where "complete orc thread = Inr (ToolCalls calls)" by blast
  then have "deciding orc 0 thread = (Inl ToolLoopExceededError, thread, 0)" by simp
  then show ?case by (intro exI[of _ "[thread]"]) simp
next
  case (Suc n)
  let ?req = "\<lambda>(tool_name, arguments, call_id). ToolCallRequest tool_name arguments call_id"
  let ?ok = "\<lambda>call m. \<exists>outcome.
                           invoke orc (fst call) (fst (snd call)) = Inr outcome \<and>
                           m = ToolCallResult (snd (snd call)) outcome"
  from assms(1) obtain calls where c: "complete orc thread = Inr (ToolCalls calls)" by blast
  from dispatching_appends[OF assms(2), of calls "thread @ map ?req calls"] obtain results where
    d: "dispatching orc calls (thread @ map ?req calls) = Inr ((thread @ map ?req calls) @ results)"
    and ok: "list_all2 ?ok calls results"
    by blast
  define t1 where "t1 = thread @ map ?req calls @ results"
  from Suc[of t1] obtain ts where
    len: "length ts = Suc n" and hd: "ts ! 0 = t1"
    and steps: "\<forall>i<n. \<exists>calls results.
              complete orc (ts ! i) = Inr (ToolCalls calls) \<and>
              list_all2 ?ok calls results \<and>
              ts ! Suc i = ts ! i @ map ?req calls @ results"
    and res: "deciding orc n t1 = (Inl ToolLoopExceededError, ts ! n, n)"
    by blast
  have dec: "deciding orc (Suc n) thread = (Inl ToolLoopExceededError, (thread # ts) ! Suc n, Suc n)"
    using c d res by (simp add: t1_def)
  have step0: "\<exists>calls results.
              complete orc ((thread # ts) ! 0) = Inr (ToolCalls calls) \<and>
              list_all2 ?ok calls results \<and>
              (thread # ts) ! Suc 0 = (thread # ts) ! 0 @ map ?req calls @ results"
    using c ok hd by (auto simp: t1_def)
  have all: "\<forall>i<Suc n. \<exists>calls results.
              complete orc ((thread # ts) ! i) = Inr (ToolCalls calls) \<and>
              list_all2 ?ok calls results \<and>
              (thread # ts) ! Suc i = (thread # ts) ! i @ map ?req calls @ results"
  proof (intro allI impI)
    fix i assume "i < Suc n"
    show "\<exists>calls results.
              complete orc ((thread # ts) ! i) = Inr (ToolCalls calls) \<and>
              list_all2 ?ok calls results \<and>
              (thread # ts) ! Suc i = (thread # ts) ! i @ map ?req calls @ results"
    proof (cases i)
      case 0
      with step0 show ?thesis by simp
    next
      case (Suc j)
      with \<open>i < Suc n\<close> have "j < n" by simp
      with steps Suc show ?thesis by simp
    qed
  qed
  show ?case
    by (rule exI[of _ "thread # ts"]) (use len dec all in simp)
qed

text \<open>
  Claim C10. The agent instructions name six locations with weather support (Seattle,
  New York, London, Berlin, Tokyo, Sydney), and \<^verbatim>\<open>get_timezone_for_city\<close> has a
  table entry for each of them: called with each of the six names as the instructions
  spell them, it returns the message naming a timezone, never the "Unknown city"
  message.
\<close>

theorem weather_locations_have_timezones:
  "(\<exists>pre post. AGENT_INSTRUCTIONS_devui =
       pre @ ''Provide weather for supported locations ('' @
       join_comma [''Seattle'', ''New York'', ''London'', ''Berlin'', ''Tokyo'', ''Sydney''] @
       '').'' @ post) \<and>
   get_timezone_for_city ''Seattle'' = ''The timezone for Seattle is America/Los_Angeles.'' \<and>
   get_timezone_for_city ''New York'' = ''The timezone for New York is America/New_York.'' \<and>
   get_timezone_for_city ''London'' = ''The timezone for London is Europe/London.'' \<and>
   get_timezone_for_city ''Berlin'' = ''The timezone for Berlin is Europe/Berlin.'' \<and>
   get_timezone_for_city ''Tokyo'' = ''The timezone for Tokyo is Asia/Tokyo.'' \<and>
   get_timezone_for_city ''Sydney'' = ''The timezone for Sydney is Australia/Sydney.''"
proof (intro conjI)
  show "\<exists>pre post. AGENT_INSTRUCTIONS_devui =
       pre @ ''Provide weather for supported locations ('' @
       join_comma [''Seattle'', ''New York'', ''London'', ''Berlin'', ''Tokyo'', ''Sydney''] @
       '').'' @ post"
  proof (intro exI)
    show "AGENT_INSTRUCTIONS_devui =
       (''You are a helpful Time & Weather assistant.\<newline>'' @
        ''\<newline>'' @
        ''## Capabilities:\<newline>'' @
        ''1. **Remember Context**: Remember the user's location from our conversation.\<newline>'' @
        ''2. **Location Tracking**: When a user says '' @ [CHR 0x22] @ ''I am in [city]'' @ [CHR 0x22] @ '', remember this as their current location.\<newline>'' @
        ''3. **Time Information**: Tell users the current time in their location.\<newline>'' @
        ''4. **Weather Information**: '') @
       ''Provide weather for supported locations ('' @
       join_comma [''Seattle'', ''New York'', ''London'', ''Berlin'', ''Tokyo'', ''Sydney''] @
       '').'' @
       (''\<newline>'' @
        ''\<newline>'' @
        ''## Guidelines:\<newline>'' @
        ''- When the user says '' @ [CHR 0x22] @ ''here'' @ [CHR 0x22] @ '' or '' @ [CHR 0x22] @ ''my location'' @ [CHR 0x22] @ '', use the location they mentioned earlier.\<newline>'' @
        ''- If the user says they '' @ [CHR 0x22] @ ''moved'' @ [CHR 0x22] @ '', update their current location.\<newline>'' @
        ''- If asked to recall their location, tell them where they said they are.\<newline>'' @
        ''- Be concise and friendly.\<newline>'')"
      by (simp add: AGENT_INSTRUCTIONS_devui_def)
  qed
qed code_simp+

lemma time_failure_msg_prefix:
  "prefix ''Could not determine time for timezone'' (time_failure_msg n e)"
  by (simp add: time_failure_msg_def)

lemma current_time_msg_prefix:
  "prefix ''The current time in'' (current_time_msg n c d)"
  by (simp add: current_time_msg_def)

lemma get_current_time_for_timezone_shape:
  "(\<exists>e. get_current_time_for_timezone lib n = time_failure_msg n e) \<or>
   (\<exists>c d. get_current_time_for_timezone lib n = current_time_msg n c d)"
  by (auto simp: get_current_time_for_timezone_def split: sum.splits)

text \<open>
  Claim C6. For every timezone name and every behaviour of the library calls,
  \<^verbatim>\<open>get_current_time_for_timezone\<close> returns a string that is not empty: no exception
  of the \<^verbatim>\<open>try\<close> block leaves the function. When the name is accepted by
  \<^verbatim>\<open>pytz.timezone\<close> (and the clock is read) the result is the success message, which
  holds the timezone name and the formatted time; when \<^verbatim>\<open>pytz.timezone\<close> raises, the
  result begins "Could not determine time for timezone" and carries the name and the text
  of the exception.
\<close>

theorem get_current_time_for_timezone_total:
  "get_current_time_for_timezone lib timezone_name \<noteq> [] \<and>
   (prefix ''Could not determine time for timezone''
      (get_current_time_for_timezone lib timezone_name) \<or>
    prefix ''The current time in'' (get_current_time_for_timezone lib timezone_name)) \<and>
   (\<forall>timezone now clock_text date_text.
      pytz_timezone lib timezone_name = Inr timezone \<and>
      datetime_now lib timezone = Inr now \<and>
      strftime lib now ''%I:%M:%S %p'' = Inr clock_text \<and>
      strftime lib now ''%A, %B %d, %Y'' = Inr date_text \<longrightarrow>
      get_current_time_for_timezone lib timezone_name =
        ''The current time in '' @ timezone_name @ '' is '' @ clock_text @ '' on '' @
        date_text @ ''.'') \<and>
   (\<forall>e. pytz_timezone lib timezone_name = Inl e \<longrightarrow>
      get_current_time_for_timezone lib timezone_name =
        ''Could not determine time for timezone '' @ [CHR 0x27] @ timezone_name @
        [CHR 0x27] @ '': '' @ e)"
proof (intro conjI allI impI)
  from get_current_time_for_timezone_shape[of lib timezone_name]
  show "get_current_time_for_timezone lib timezone_name \<noteq> []"
    by (auto simp: time_failure_msg_def current_time_msg_def)
next
  from get_current_time_for_timezone_shape[of lib timezone_name]
  show "prefix ''Could not determine time for timezone''
      (get_current_time_for_timezone lib timezone_name) \<or>
    prefix ''The current time in'' (get_current_time_for_timezone lib timezone_name)"
    using time_failure_msg_prefix current_time_msg_prefix by metis
next
  fix timezone now clock_text date_text
  assume "pytz_timezone lib timezone_name = Inr timezone \<and>
      datetime_now lib timezone = Inr now \<and>
      strftime lib now ''%I:%M:%S %p'' = Inr clock_text \<and>
      strftime lib now ''%A, %B %d, %Y'' = Inr date_text"
  then show "get_current_time_for_timezone lib timezone_name =
        ''The current time in '' @ timezone_name @ '' is '' @ clock_text @ '' on '' @
        date_text @ ''.''"
    by (simp add: get_current_time_for_timezone_def current_time_msg_def)
next
  fix e
  assume "pytz_timezone lib timezone_name = Inl e"
  then show "get_current_time_for_timezone lib timezone_name =
        ''Could not determine time for timezone '' @ [CHR 0x27] @ timezone_name @
        [CHR 0x27] @ '': '' @ e"
    by (simp add: get_current_time_for_timezone_def time_failure_msg_def)
qed

theorem get_current_time_for_timezone_total_witness:
  "get_current_time_for_timezone stub_time_library ''Europe/London'' =
     ''The current time in Europe/London is 09:30:00 AM on Monday, January 01, 2024.'' \<and>
   get_current_time_for_timezone stub_time_library ''Mars/Base'' =
     ''Could not determine time for timezone 'Mars/Base': '' @ quoted ''Mars/Base''"
proof -
  have ok: "pytz_timezone stub_time_library ''Europe/London'' = Inr 0 \<and>
      datetime_now stub_time_library 0 = Inr 0 \<and>
      strftime stub_time_library 0 ''%I:%M:%S %p'' = Inr ''09:30:00 AM'' \<and>
      strftime stub_time_library 0 ''%A, %B %d, %Y'' = Inr ''Monday, January 01, 2024''"
    by (simp add: stub_time_library_def)
  have bad: "pytz_timezone stub_time_library ''Mars/Base'' = Inl (quoted ''Mars/Base'')"
    by (simp add: stub_time_library_def)
  from get_current_time_for_timezone_total[of stub_time_library "''Europe/London''"] ok
  have one: "get_current_time_for_timezone stub_time_library ''Europe/London'' =
        ''The current time in '' @ ''Europe/London'' @ '' is '' @ ''09:30:00 AM'' @ '' on '' @
        ''Monday, January 01, 2024'' @ ''.''"
    by blast
  from get_current_time_for_timezone_total[of stub_time_library "''Mars/Base''"] bad
  have two: "get_current_time_for_timezone stub_time_library ''Mars/Base'' =
        ''Could not determine time for timezone '' @ [CHR 0x27] @ ''Mars/Base'' @
        [CHR 0x27] @ '': '' @ quoted ''Mars/Base''"
    by blast
  from one two show ?thesis by simp
qed

text \<open>
  Claim C9. The credentials are chosen by a fixed priority. If GITHUB_TOKEN is set it is
  the token, with the endpoint https://models.github.ai/inference, whatever
  AZURE_OPENAI_API_KEY is. AZURE_OPENAI_API_KEY with AZURE_OPENAI_ENDPOINT is used only
  when GITHUB_TOKEN is absent. When neither GITHUB_TOKEN nor AZURE_OPENAI_API_KEY is set,
  the module raises ValueError "No API key found..." and the program ends before any
  agent is constructed: it has had no effect at all.
\<close>

theorem client_configuration_priority:
  "(\<forall>t. env ''GITHUB_TOKEN'' = Some t \<longrightarrow>
      client_configuration env =
        ([Print ''Using GitHub Token for authentication''],
         Inr \<lparr>token = t, endpoint = ''https://models.github.ai/inference''\<rparr>)) \<and>
   (\<forall>k e. env ''GITHUB_TOKEN'' = None \<and> env ''AZURE_OPENAI_API_KEY'' = Some k \<and>
      env ''AZURE_OPENAI_ENDPOINT'' = Some e \<longrightarrow>
      client_configuration env =
        ([Print ''Using Azure OpenAI Token for authentication''],
         Inr \<lparr>token = k, endpoint = e\<rparr>)) \<and>
   (\<forall>c. client_configuration env =
          ([Print ''Using Azure OpenAI Token for authentication''], Inr c) \<longrightarrow>
      env ''GITHUB_TOKEN'' = None \<and> env ''AZURE_OPENAI_API_KEY'' = Some (token c) \<and>
      env ''AZURE_OPENAI_ENDPOINT'' = Some (endpoint c)) \<and>
   (env ''GITHUB_TOKEN'' = None \<and> env ''AZURE_OPENAI_API_KEY'' = None \<longrightarrow>
      client_configuration env =
        ([], Inl (ValueError ''No API key found. Set GITHUB_TOKEN or AZURE_OPENAI_API_KEY.'')) \<and>
      (\<forall>fw argv inputs s.
         time_weather_agent fw env argv inputs (s::'s) =
           ([], Raised (ValueError
                  ''No API key found. Set GITHUB_TOKEN or AZURE_OPENAI_API_KEY.''), s)))"
proof (intro conjI allI impI)
  fix t assume "env ''GITHUB_TOKEN'' = Some t"
  then show "client_configuration env =
        ([Print ''Using GitHub Token for authentication''],
         Inr \<lparr>token = t, endpoint = ''https://models.github.ai/inference''\<rparr>)"
    by (simp add: client_configuration_def)
next
  fix k e
  assume "env ''GITHUB_TOKEN'' = None \<and> env ''AZURE_OPENAI_API_KEY'' = Some k \<and>
      env ''AZURE_OPENAI_ENDPOINT'' = Some e"
  then show "client_configuration env =
        ([Print ''Using Azure OpenAI Token for authentication''],
         Inr \<lparr>token = k, endpoint = e\<rparr>)"
    by (simp add: client_configuration_def)
next
  fix c
  assume a: "client_configuration env =
          ([Print ''Using Azure OpenAI Token for authentication''], Inr c)"
  then show "env ''GITHUB_TOKEN'' = None"
    by (auto simp: client_configuration_def split: option.splits)
  from a show "env ''AZURE_OPENAI_API_KEY'' = Some (token c)"
    by (auto simp: client_configuration_def split: option.splits)
  from a show "env ''AZURE_OPENAI_ENDPOINT'' = Some (endpoint c)"
    by (auto simp: client_configuration_def split: option.splits)
next
  assume n: "env ''GITHUB_TOKEN'' = None \<and> env ''AZURE_OPENAI_API_KEY'' = None"
  then show cc: "client_configuration env =
        ([], Inl (ValueError ''No API key found. Set GITHUB_TOKEN or AZURE_OPENAI_API_KEY.''))"
    by (simp add: client_configuration_def)
  fix fw argv inputs and s :: 's
  show "time_weather_agent fw env argv inputs s =
           ([], Raised (ValueError
                  ''No API key found. Set GITHUB_TOKEN or AZURE_OPENAI_API_KEY.''), s)"
    unfolding time_weather_agent_def cc by simp
qed

theorem client_configuration_priority_witness:
  "client_configuration [''GITHUB_TOKEN'' \<mapsto> ''ghp'', ''AZURE_OPENAI_API_KEY'' \<mapsto> ''az''] =
     ([Print ''Using GitHub Token for authentication''],
      Inr \<lparr>token = ''ghp'', endpoint = ''https://models.github.ai/inference''\<rparr>) \<and>
   client_configuration
       [''AZURE_OPENAI_API_KEY'' \<mapsto> ''az'', ''AZURE_OPENAI_ENDPOINT'' \<mapsto> ''https://x.example''] =
     ([Print ''Using Azure OpenAI Token for authentication''],
      Inr \<lparr>token = ''az'', endpoint = ''https://x.example''\<rparr>) \<and>
   [''AZURE_OPENAI_API_KEY'' \<mapsto> ''az'', ''AZURE_OPENAI_ENDPOINT'' \<mapsto> ''https://x.example'']
       ''GITHUB_TOKEN'' = None \<and>
   time_weather_agent stub_framework Map.empty [''time_weather_agent.py''] [Line ''hi''] 0 =
     ([], Raised (ValueError ''No API key found. Set GITHUB_TOKEN or AZURE_OPENAI_API_KEY.''), 0)"
proof -
  have g: "[''GITHUB_TOKEN'' \<mapsto> ''ghp'', ''AZURE_OPENAI_API_KEY'' \<mapsto> ''az''] ''GITHUB_TOKEN''
           = Some ''ghp''"
    by simp
  have a: "[''AZURE_OPENAI_API_KEY'' \<mapsto> ''az'', ''AZURE_OPENAI_ENDPOINT'' \<mapsto> ''https://x.example'']
             ''GITHUB_TOKEN'' = None \<and>
           [''AZURE_OPENAI_API_KEY'' \<mapsto> ''az'', ''AZURE_OPENAI_ENDPOINT'' \<mapsto> ''https://x.example'']
             ''AZURE_OPENAI_API_KEY'' = Some ''az'' \<and>
           [''AZURE_OPENAI_API_KEY'' \<mapsto> ''az'', ''AZURE_OPENAI_ENDPOINT'' \<mapsto> ''https://x.example'']
             ''AZURE_OPENAI_ENDPOINT'' = Some ''https://x.example''"
    by simp
  have n: "(Map.empty :: environ) ''GITHUB_TOKEN'' = None \<and>
           (Map.empty :: environ) ''AZURE_OPENAI_API_KEY'' = None"
    by simp
  from client_configuration_priority
         [of "[''GITHUB_TOKEN'' \<mapsto> ''ghp'', ''AZURE_OPENAI_API_KEY'' \<mapsto> ''az'']"] g
  have one: "client_configuration [''GITHUB_TOKEN'' \<mapsto> ''ghp'', ''AZURE_OPENAI_API_KEY'' \<mapsto> ''az''] =
     ([Print ''Using GitHub Token for authentication''],
      Inr \<lparr>token = ''ghp'', endpoint = ''https://models.github.ai/inference''\<rparr>)"
    by blast
  from client_configuration_priority
         [of "[''AZURE_OPENAI_API_KEY'' \<mapsto> ''az'', ''AZURE_OPENAI_ENDPOINT'' \<mapsto> ''https://x.example'']"] a
  have two: "client_configuration
       [''AZURE_OPENAI_API_KEY'' \<mapsto> ''az'', ''AZURE_OPENAI_ENDPOINT'' \<mapsto> ''https://x.example''] =
     ([Print ''Using Azure OpenAI Token for authentication''],
      Inr \<lparr>token = ''az'', endpoint = ''https://x.example''\<rparr>)"
    by blast
  from client_configuration_priority [of Map.empty, where 's = nat] n
  have three: "time_weather_agent stub_framework Map.empty [''time_weather_agent.py''] [Line ''hi''] 0 =
     ([], Raised (ValueError ''No API key found. Set GITHUB_TOKEN or AZURE_OPENAI_API_KEY.''), 0)"
    by blast
  from client_configuration_priority
         [of "[''AZURE_OPENAI_API_KEY'' \<mapsto> ''az'', ''AZURE_OPENAI_ENDPOINT'' \<mapsto> ''https://x.example'']"] two
  have four: "[''AZURE_OPENAI_API_KEY'' \<mapsto> ''az'', ''AZURE_OPENAI_ENDPOINT'' \<mapsto> ''https://x.example'']
       ''GITHUB_TOKEN'' = None"
    by blast
  from one two four three show ?thesis by blast
qed

lemma py_strip_all_space:
  assumes "\<forall>c\<in>set raw. isspace c"
  shows "py_strip raw = []"
proof -
  from assms have "dropWhile isspace raw = []"
    by (simp add: dropWhile_eq_Nil_conv)
  then have "py_strip raw = rev (dropWhile isspace (rev []))"
    by (simp only: py_strip_def)
  then show ?thesis by simp
qed

lemma console_loop_runs_line:
  assumes "py_strip raw \<noteq> []"
      and "py_lower (py_strip raw) \<notin> {''quit'', ''exit'', ''q''}"
  shows "AgentRun thread (py_strip raw) \<in>
           set (fst (console_loop ui fw thread (Line raw # rest) s))"
  using assms
  by (auto simp: Let_def fst_emit split: prod.splits run_outcome.splits)

text \<open>
  Claim C8. When the stripped input, in lower case, is "quit", "exit" or "q", the loop
  prints its goodbye and ends: \<^verbatim>\<open>agent.run\<close> is not called, and the state of the
  framework (the thread with it) is what it was. An input of whitespace only is skipped:
  the loop goes on to the next input without calling \<^verbatim>\<open>agent.run\<close>. Both hold for
  the loop of \<^verbatim>\<open>run_interactive_conversation\<close> and for that of
  \<^verbatim>\<open>main_console\<close>, whatever the texts \<open>ui\<close>.
\<close>

theorem exit_sentinels_handled_by_harness:
  "(py_lower (py_strip raw) \<in> {''quit'', ''exit'', ''q''} \<longrightarrow>
      console_loop ui fw thread (Line raw # rest) s =
        ([Input (prompt ui), Print (goodbye ui)], Returned, s)) \<and>
   ((\<forall>c\<in>set raw. isspace c) \<longrightarrow>
      console_loop ui fw thread (Line raw # rest) s =
        emit [Input (prompt ui)] (console_loop ui fw thread rest s))"
proof (intro conjI impI)
  assume q: "py_lower (py_strip raw) \<in> {''quit'', ''exit'', ''q''}"
  then have "py_strip raw \<noteq> []"
    by (auto simp: py_lower_def)
  with q show "console_loop ui fw thread (Line raw # rest) s =
        ([Input (prompt ui), Print (goodbye ui)], Returned, s)"
    by (simp add: Let_def)
next
  assume "\<forall>c\<in>set raw. isspace c"
  then have "py_strip raw = []" by (rule py_strip_all_space)
  then show "console_loop ui fw thread (Line raw # rest) s =
        emit [Input (prompt ui)] (console_loop ui fw thread rest s)"
    by (simp add: Let_def)
qed

theorem exit_sentinels_handled_by_harness_witness:
  "console_loop interactive_text stub_framework 7 [Line '' Quit  '', Line ''hello''] 0 =
     ([Input ''\<newline>You 2: '', Print ''\<newline>Goodbye! Have a great day!''], Returned, 0) \<and>
   console_loop console_mode_text stub_framework 7 [Line ''   '', Line ''q''] 0 =
     ([Input ''You: '', Input ''You: '', Print ''\<newline>Goodbye!''], Returned, 0)"
proof -
  have q1: "py_lower (py_strip '' Quit  '') \<in> {''quit'', ''exit'', ''q''}"
    by code_simp
  have q2: "py_lower (py_strip ''q'') \<in> {''quit'', ''exit'', ''q''}"
    by code_simp
  have sp: "\<forall>c\<in>set ''   ''. isspace c"
    by (simp add: isspace_def)
  from exit_sentinels_handled_by_harness
         [of "'' Quit  ''" interactive_text stub_framework 7 "[Line ''hello'']" 0] q1
  have one: "console_loop interactive_text stub_framework 7 [Line '' Quit  '', Line ''hello''] 0 =
     ([Input (prompt interactive_text), Print (goodbye interactive_text)], Returned, 0)"
    by blast
  from exit_sentinels_handled_by_harness
         [of "''q''" console_mode_text stub_framework 7 "[]" 0] q2
  have two: "console_loop console_mode_text stub_framework 7 [Line ''q''] 0 =
     ([Input (prompt console_mode_text), Print (goodbye console_mode_text)], Returned, 0)"
    by blast
  from exit_sentinels_handled_by_harness
         [of "''   ''" console_mode_text stub_framework 7 "[Line ''q'']" 0] sp
  have three: "console_loop console_mode_text stub_framework 7 [Line ''   '', Line ''q''] 0 =
     emit [Input (prompt console_mode_text)]
       (console_loop console_mode_text stub_framework 7 [Line ''q''] 0)"
    by blast
  from one two three show ?thesis
    by (simp add: interactive_text_def console_mode_text_def)
qed

text \<open>
  Claim C4, amended. When \<^verbatim>\<open>agent.run\<close> raises an exception that is an instance of
  \<^verbatim>\<open>Exception\<close> in a turn, only that turn is lost: the loop prints the text of the
  exception, and goes on with the rest of the input exactly as a loop started on it with
  the same thread handle would; the next utterance is passed to \<^verbatim>\<open>agent.run\<close> with
  that same thread.
\<close>

theorem failed_turn_keeps_session:
  assumes "py_strip raw \<noteq> []"
      and "py_lower (py_strip raw) \<notin> {''quit'', ''exit'', ''q''}"
      and "agent_run fw thread (py_strip raw) s = (RaisesException e, s')"
  shows "console_loop ui fw thread (Line raw # rest) s =
           emit (Input (prompt ui) # AgentRun thread (py_strip raw) #
                 map Print (error_lines ui e))
             (console_loop ui fw thread rest s') \<and>
         Print (''\<newline>Error: '' @ e) \<in>
           set (fst (console_loop interactive_text fw thread (Line raw # rest) s)) \<and>
         Print (''Error: '' @ e @ ''\<newline>'') \<in>
           set (fst (console_loop console_mode_text fw thread (Line raw # rest) s)) \<and>
         (\<forall>raw2 rest2. rest = Line raw2 # rest2 \<and> py_strip raw2 \<noteq> [] \<and>
            py_lower (py_strip raw2) \<notin> {''quit'', ''exit'', ''q''} \<longrightarrow>
            AgentRun thread (py_strip raw2) \<in>
              set (fst (console_loop ui fw thread (Line raw # rest) s)))"
proof -
  have step: "\<And>ui. console_loop ui fw thread (Line raw # rest) s =
           emit (Input (prompt ui) # AgentRun thread (py_strip raw) #
                 map Print (error_lines ui e))
             (console_loop ui fw thread rest s')"
    using assms by (simp add: Let_def)
  have next_turn: "AgentRun thread (py_strip raw2) \<in>
              set (fst (console_loop ui fw thread (Line raw # rest) s))"
    if "rest = Line raw2 # rest2 \<and> py_strip raw2 \<noteq> [] \<and>
        py_lower (py_strip raw2) \<notin> {''quit'', ''exit'', ''q''}" for raw2 rest2
  proof -
    from that have "AgentRun thread (py_strip raw2) \<in>
           set (fst (console_loop ui fw thread rest s'))"
      using console_loop_runs_line[of raw2 thread ui fw rest2 s'] by simp
    then show ?thesis
      unfolding step fst_emit by simp
  qed
  have shown1: "Print (''\<newline>Error: '' @ e) \<in>
           set (fst (console_loop interactive_text fw thread (Line raw # rest) s))"
    unfolding step fst_emit by (simp add: interactive_text_def)
  have shown2: "Print (''Error: '' @ e @ ''\<newline>'') \<in>
           set (fst (console_loop console_mode_text fw thread (Line raw # rest) s))"
    unfolding step fst_emit by (simp add: console_mode_text_def)
  from step[of ui] shown1 shown2 next_turn show ?thesis
    by blast
qed

theorem failed_turn_keeps_session_witness:
  "console_loop interactive_text stub_framework 7
       [Line ''  boom '', Line ''hello'', Line ''quit''] 0 =
     ([Input ''\<newline>You 2: '', AgentRun 7 ''boom'', Print ''\<newline>Error: backend down'',
       Print ''Please try again or type 'quit' to exit.'',
       Input ''\<newline>You 2: '', AgentRun 7 ''hello'', Print ''\<newline>Agent: ok: hello'',
       Input ''\<newline>You 2: '', Print ''\<newline>Goodbye! Have a great day!''],
      Returned, 2)"
proof -
  have s1: "py_strip ''  boom '' = ''boom''" by code_simp
  have h1: "py_strip ''  boom '' \<noteq> []" by code_simp
  have h2: "py_lower (py_strip ''  boom '') \<notin> {''quit'', ''exit'', ''q''}" by code_simp
  have h3: "agent_run stub_framework 7 (py_strip ''  boom '') 0 =
              (RaisesException ''backend down'', 1)"
    by (simp add: s1 stub_framework_def)
  have s2: "py_strip ''hello'' = ''hello''" by code_simp
  have l2: "py_lower ''hello'' = ''hello''" by code_simp
  have s3: "py_strip ''quit'' = ''quit''" by code_simp
  have l3: "py_lower ''quit'' = ''quit''" by code_simp
  have rest: "console_loop interactive_text stub_framework 7 [Line ''hello'', Line ''quit''] 1 =
     ([Input ''\<newline>You 2: '', AgentRun 7 ''hello'', Print ''\<newline>Agent: ok: hello'',
       Input ''\<newline>You 2: '', Print ''\<newline>Goodbye! Have a great day!''],
      Returned, 2)"
    by (simp add: s2 l2 s3 l3 Let_def stub_framework_def interactive_text_def)
  from failed_turn_keeps_session [OF h1 h2 h3, of interactive_text "[Line ''hello'', Line ''quit'']"]
  have "console_loop interactive_text stub_framework 7
          (Line ''  boom '' # [Line ''hello'', Line ''quit'']) 0 =
        emit (Input (prompt interactive_text) # AgentRun 7 (py_strip ''  boom '') #
              map Print (error_lines interactive_text ''backend down''))
          (console_loop interactive_text stub_framework 7 [Line ''hello'', Line ''quit''] 1)"
    by blast
  then show ?thesis
    unfolding rest s1 by (simp add: interactive_text_def)
qed

text \<open>
  As the claim words it, for any exception, it fails: when \<^verbatim>\<open>agent.run\<close> is cut by
  KeyboardInterrupt, the clause \<^verbatim>\<open>except KeyboardInterrupt\<close> of the loop prints a goodbye
  and breaks, and the utterance that follows is never read.
\<close>

theorem any_exception_counterexample:
  "console_loop interactive_text interrupted_framework 7 [Line ''hi'', Line ''hello''] 0 =
     ([Input ''\<newline>You 2: '', AgentRun 7 ''hi'',
       Print ''\<newline>\<newline>Conversation interrupted. Goodbye!''],
      Returned, 1)"
proof -
  have s1: "py_strip ''hi'' = ''hi''" by code_simp
  have l1: "py_lower ''hi'' = ''hi''" by code_simp
  show ?thesis
    by (simp add: s1 l1 Let_def interrupted_framework_def interactive_text_def)
qed



text \<open>
  Claim C5, amended. With an oracle that asks for tool calls at every decision and never
  gives a final reply, and tools whose dispatch always yields an outcome (a success or a
  failure fed back as data, never a ConnectionError), a turn ends with
  ToolLoopExceededError after exactly \<open>max_round_trips\<close> round trips between Deciding
  and Dispatching, not earlier and not later: the transcript goes through
  \<open>max_round_trips\<close> successive states, each obtained from the one before by the
  requests the oracle decided on that state followed by one result for every request, and
  the turn returns the last of them with the error, not a reply.
\<close>

theorem tool_loop_bound_exact:
  assumes "\<forall>thread. \<exists>calls. complete orc thread = Inr (ToolCalls calls)"
      and "\<forall>tool_name arguments. \<exists>outcome. invoke orc tool_name arguments = Inr outcome"
  shows "\<exists>ts. length ts = Suc (max_round_trips orc) \<and>
           ts ! 0 = thread @ [UserUtterance utterance] \<and>
           (\<forall>i<max_round_trips orc. \<exists>calls results.
              complete orc (ts ! i) = Inr (ToolCalls calls) \<and>
              list_all2 (\<lambda>call m. \<exists>outcome.
                           invoke orc (fst call) (fst (snd call)) = Inr outcome \<and>
                           m = ToolCallResult (snd (snd call)) outcome) calls results \<and>
              ts ! Suc i =
                ts ! i @
                map (\<lambda>(tool_name, arguments, call_id).
                       ToolCallRequest tool_name arguments call_id) calls @
                results) \<and>
           handle_turn orc thread utterance =
             (Inl ToolLoopExceededError, ts ! max_round_trips orc, max_round_trips orc)"
  unfolding handle_turn_def by (rule deciding_transcript[OF assms])

theorem tool_loop_bound_exact_witness:
  "handle_turn stub_orchestrator [] ''What is the weather like today?'' =
     (Inl ToolLoopExceededError,
      [UserUtterance ''What is the weather like today?'',
       ToolCallRequest ''get_weather_at_location'' ''Berlin'' 1, ToolCallResult 1 (Success ''sunny''),
       ToolCallRequest ''get_weather_at_location'' ''Berlin'' 3, ToolCallResult 3 (Success ''sunny''),
       ToolCallRequest ''get_weather_at_location'' ''Berlin'' 5, ToolCallResult 5 (Success ''sunny''),
       ToolCallRequest ''get_weather_at_location'' ''Berlin'' 7, ToolCallResult 7 (Success ''sunny''),
       ToolCallRequest ''get_weather_at_location'' ''Berlin'' 9, ToolCallResult 9 (Success ''sunny''),
       ToolCallRequest ''get_weather_at_location'' ''Berlin'' 11, ToolCallResult 11 (Success ''sunny''),
       ToolCallRequest ''get_weather_at_location'' ''Berlin'' 13, ToolCallResult 13 (Success ''sunny''),
       ToolCallRequest ''get_weather_at_location'' ''Berlin'' 15, ToolCallResult 15 (Success ''sunny'')],
      8)"
proof -
  have h1: "\<forall>thread. \<exists>calls. complete stub_orchestrator thread = Inr (ToolCalls calls)"
    by (simp add: stub_orchestrator_def)
  have h2: "\<forall>tool_name arguments. \<exists>outcome.
              invoke stub_orchestrator tool_name arguments = Inr outcome"
    by (simp add: stub_orchestrator_def)
  have m: "max_round_trips stub_orchestrator = 8"
    by (simp add: stub_orchestrator_def)
  from tool_loop_bound_exact [OF h1 h2, of "[]" "''What is the weather like today?''"]
  obtain ts where
    r: "handle_turn stub_orchestrator [] ''What is the weather like today?'' =
          (Inl ToolLoopExceededError, ts ! 8, 8)"
    unfolding m by blast
  have t: "fst (snd (handle_turn stub_orchestrator [] ''What is the weather like today?'')) =
      [UserUtterance ''What is the weather like today?'',
       ToolCallRequest ''get_weather_at_location'' ''Berlin'' 1, ToolCallResult 1 (Success ''sunny''),
       ToolCallRequest ''get_weather_at_location'' ''Berlin'' 3, ToolCallResult 3 (Success ''sunny''),
       ToolCallRequest ''get_weather_at_location'' ''Berlin'' 5, ToolCallResult 5 (Success ''sunny''),
       ToolCallRequest ''get_weather_at_location'' ''Berlin'' 7, ToolCallResult 7 (Success ''sunny''),
       ToolCallRequest ''get_weather_at_location'' ''Berlin'' 9, ToolCallResult 9 (Success ''sunny''),
       ToolCallRequest ''get_weather_at_location'' ''Berlin'' 11, ToolCallResult 11 (Success ''sunny''),
       ToolCallRequest ''get_weather_at_location'' ''Berlin'' 13, ToolCallResult 13 (Success ''sunny''),
       ToolCallRequest ''get_weather_at_location'' ''Berlin'' 15, ToolCallResult 15 (Success ''sunny'')]"
    by (simp add: handle_turn_def stub_orchestrator_def eval_nat_numeral)
  from r t show ?thesis by simp
qed

text \<open>
  As the claim words it, without the proviso on the tools, it fails: with the same oracle
  and a capability provider that cannot be reached, the turn ends with ConnectionError
  before any round trip is complete.
\<close>

theorem tool_loop_bound_counterexample:
  "complete unreachable_orchestrator [UserUtterance ''What is the weather like today?''] =
     Inr (ToolCalls [(''get_weather_at_location'', ''Berlin'', 1)]) \<and>
   handle_turn unreachable_orchestrator [] ''What is the weather like today?'' =
     (Inl ConnectionError, [UserUtterance ''What is the weather like today?''], 0)"
  by (simp add: handle_turn_def unreachable_orchestrator_def eval_nat_numeral)

text \<open>
  Claim C2 says that the demo driver builds a working agent and obtains its replies as
  the interactive driver does. On the code, \<^verbatim>\<open>run_demo_conversation\<close> raises
  NameError while it evaluates the arguments of \<^verbatim>\<open>ChatAgent\<close>, for every framework
  and environment: no agent is constructed, no thread is created and \<^verbatim>\<open>agent.run\<close>
  is never called. So does the whole program when started with \<^verbatim>\<open>--demo\<close>.
\<close>

theorem demo_driver_raises_name_error:
  "run_demo_conversation fw env s =
     (demo_banner,
      Raised (NameError ''name 'get_current_time_for_timezone' is not defined''), s) \<and>
   time_weather_agent fw [''GITHUB_TOKEN'' \<mapsto> t] [''time_weather_agent.py'', ''--demo''] inputs s =
     (Print ''Using GitHub Token for authentication'' # demo_banner,
      Raised (NameError ''name 'get_current_time_for_timezone' is not defined''), s)"
proof (intro conjI)
  show d: "run_demo_conversation fw env s =
     (demo_banner,
      Raised (NameError ''name 'get_current_time_for_timezone' is not defined''), s)" for env
    by (rule run_demo_conversation_name_error)
  show "time_weather_agent fw [''GITHUB_TOKEN'' \<mapsto> t] [''time_weather_agent.py'', ''--demo''] inputs s =
     (Print ''Using GitHub Token for authentication'' # demo_banner,
      Raised (NameError ''name 'get_current_time_for_timezone' is not defined''), s)"
    by (simp add: time_weather_agent_def client_configuration_def main_def d)
qed

end
